theory Spec2Isabelle
  imports Main "HOL-Library.Multiset"
begin

section \<open>Data model (src/lib/supabase.ts and the initial schema migration)\<close>

text \<open>
  The rows of the tables, with the columns of the \<^verbatim>\<open>CREATE TABLE\<close> statements and of the
  TypeScript interfaces. A \<^verbatim>\<open>uuid\<close> is an opaque identifier and a \<^verbatim>\<open>timestamptz\<close> a point
  of the server's clock; both are natural numbers here. Field names carry a one-letter
  prefix for their table, since several tables share column names.
\<close>

type_synonym uuid = nat
type_synonym timestamptz = nat

text \<open>
  Message bodies are JavaScript strings: sequences of UTF-16 code units, so that
  \<^verbatim>\<open>String.prototype.trim\<close> can be modelled over its real alphabet. Status values,
  action texts and other labels are only copied and compared with ASCII literals and are
  HOL strings.
\<close>

type_synonym js_string = "nat list"

datatype role = customer | super_admin | supervisory_admin | agent

record User =
  u_id :: uuid
  u_email :: string
  u_name :: string
  u_role :: role
  u_organisation_id :: "uuid option"
  u_team_id :: "uuid option"
  u_key :: "string option"
  u_is_verified :: bool
  u_created_at :: timestamptz
  u_updated_at :: timestamptz

record Team =
  tm_id :: uuid
  tm_name :: string
  tm_tag :: string
  tm_created_at :: timestamptz
  tm_updated_at :: timestamptz

record Ticket =
  t_id :: uuid
  t_title :: string
  t_description :: string
  t_customer_id :: uuid
  t_team_tag :: "string option"
  t_assigned_agent_id :: "uuid option"
  t_status :: string
  t_created_at :: timestamptz
  t_updated_at :: timestamptz

record TicketMessage =
  m_id :: uuid
  m_ticket_id :: uuid
  m_user_id :: uuid
  m_message :: js_string
  m_created_at :: timestamptz

datatype json = json_string string | json_uuid uuid

record ActivityLog =
  a_id :: uuid
  a_user_id :: uuid
  a_action :: string
  a_details :: "(string \<times> json) list"
  a_created_at :: timestamptz

record TicketEscalation =
  e_id :: uuid
  e_ticket_id :: uuid
  e_suggested_by_agent_id :: uuid
  e_status :: string
  e_reason :: "string option"
  e_created_at :: timestamptz
  e_updated_at :: timestamptz

section \<open>The data store: tables, row-level security policies, statements\<close>

text \<open>
  The state of the database: each table as the list of its rows in commit order, the
  server clock read by \<^verbatim>\<open>now()\<close>, and the source of \<^verbatim>\<open>gen_random_uuid()\<close>, modelled as
  a counter so that every generated id is fresh.
\<close>

record database =
  users :: "User list"
  teams :: "Team list"
  tickets :: "Ticket list"
  ticket_messages :: "TicketMessage list"
  activity_logs :: "ActivityLog list"
  ticket_escalations :: "TicketEscalation list"
  clock :: timestamptz
  next_uuid :: uuid

text \<open>
  What a statement reports back through supabase-js: the \<^verbatim>\<open>error\<close> member of its
  response. PostgreSQL raises 42P17 (infinite recursion detected in policy) while it
  rewrites a statement, before any row is looked at; 22P05 when a text value holds the code
  unit 0; 42501 for a row that fails the \<^verbatim>\<open>WITH CHECK\<close> of every applicable policy; 23514
  for a value that fails a \<^verbatim>\<open>CHECK\<close> constraint; 23503 for a dangling reference. Rows that
  an \<^verbatim>\<open>UPDATE\<close> or \<^verbatim>\<open>SELECT\<close> policy hides are skipped without any error.
\<close>

datatype pg_error =
  infinite_recursion | untranslatable_character | rls_violation | check_violation
  | foreign_key_violation

subsection \<open>Which tables the policies read\<close>

text \<open>
  Every table has row-level security enabled, and every policy is for the role
  \<^verbatim>\<open>authenticated\<close>. To rewrite a statement on a table, PostgreSQL adds the expressions
  of the table's policies for the command, and rewrites each sub-select in them in the
  same way, as a \<^verbatim>\<open>SELECT\<close>. The tables those sub-selects read, policy by policy:
  \<^item> \<^verbatim>\<open>users\<close>: "Users can view their own profile" reads no table; "Super admins can
    manage all users" (FOR ALL) selects from \<^verbatim>\<open>users\<close>; "Supervisory admins can view team
    members" (SELECT) selects from \<^verbatim>\<open>users\<close> joined with \<^verbatim>\<open>team_supervisors\<close>;
  \<^item> \<^verbatim>\<open>team_supervisors\<close>: no policy;
  \<^item> \<^verbatim>\<open>tickets\<close>: the SELECT, INSERT and UPDATE policies each select from \<^verbatim>\<open>users\<close>;
  \<^item> \<^verbatim>\<open>ticket_messages\<close>: the SELECT and INSERT policies select from \<^verbatim>\<open>tickets\<close> joined
    with \<^verbatim>\<open>users\<close>;
  \<^item> \<^verbatim>\<open>activity_logs\<close>: the two policies compare \<^verbatim>\<open>user_id\<close> with \<^verbatim>\<open>auth.uid()\<close> and
    read no table;
  \<^item> \<^verbatim>\<open>ticket_escalations\<close>: "Agents can create escalations" (INSERT) and "Supervisors
    can manage escalations" (FOR ALL) select from \<^verbatim>\<open>users\<close>.
  An \<^verbatim>\<open>UPDATE\<close> with a \<^verbatim>\<open>WHERE\<close> clause also takes the SELECT policies of its table.
  The later migrations add INSERT policies on \<^verbatim>\<open>users\<close> that read no table, and drop
  none of the policies above.
\<close>

datatype table =
  tbl_users | tbl_team_supervisors | tbl_tickets | tbl_ticket_messages | tbl_activity_logs
  | tbl_ticket_escalations

datatype command = SELECT | INSERT | UPDATE

fun policy_reads :: "command \<Rightarrow> table \<Rightarrow> table list" where
  "policy_reads SELECT tbl_users = [tbl_users, tbl_users, tbl_team_supervisors]"
| "policy_reads cmd tbl_users = [tbl_users]"
| "policy_reads cmd tbl_team_supervisors = []"
| "policy_reads cmd tbl_tickets = [tbl_users]"
| "policy_reads cmd tbl_ticket_messages = [tbl_tickets, tbl_users]"
| "policy_reads cmd tbl_activity_logs = []"
| "policy_reads cmd tbl_ticket_escalations = [tbl_users]"

text \<open>
  The rewriter keeps the tables whose policies it is expanding; meeting one of them again
  is the infinite recursion. The first argument lists the tables not yet under expansion,
  so each nested call has one table fewer.
\<close>

function expands_recursively :: "table list \<Rightarrow> command \<Rightarrow> table \<Rightarrow> bool" where
  "expands_recursively inactive cmd t =
     (if t \<notin> set inactive then True
      else list_ex (expands_recursively (removeAll t inactive) SELECT) (policy_reads cmd t))"
  by pat_completeness auto
termination
  by (relation "measure (\<lambda>(inactive, cmd, t). length inactive)")
    (auto simp: length_removeAll_less)

definition all_tables :: "table list" where
  "all_tables =
     [tbl_users, tbl_team_supervisors, tbl_tickets, tbl_ticket_messages, tbl_activity_logs,
      tbl_ticket_escalations]"

text \<open>
  Whether a statement of the given command on the given table, sent with a session, is
  refused with 42P17. Without a session the role is \<^verbatim>\<open>anon\<close>, no policy applies and
  nothing is expanded.
\<close>

definition policy_recursion :: "uuid option \<Rightarrow> command \<Rightarrow> table \<Rightarrow> bool" where
  "policy_recursion uid cmd t = (uid \<noteq> None \<and> expands_recursively all_tables cmd t)"

subsection \<open>The policy expressions\<close>

text \<open>
  The expressions are evaluated only for a statement the rewriter has accepted.
  \<^verbatim>\<open>EXISTS (SELECT 1 FROM users WHERE users.id = auth.uid() AND users.role IN (...))\<close>
  is the sub-select of most policies; it looks at the caller's own row. \<^verbatim>\<open>auth.uid()\<close> is
  \<^verbatim>\<open>NULL\<close> without a session, and then no policy admits anything.
\<close>

definition has_role :: "database \<Rightarrow> uuid option \<Rightarrow> role list \<Rightarrow> bool" where
  "has_role db uid rs =
     (case uid of
        None \<Rightarrow> False
      | Some i \<Rightarrow> list_ex (\<lambda>u. u_id u = i \<and> u_role u \<in> set rs) (users db))"

definition staff_roles :: "role list" where
  "staff_roles = [super_admin, supervisory_admin, agent]"

text \<open>Policy "Customers can view their own tickets" (tickets, SELECT).\<close>

definition tickets_select_policy :: "database \<Rightarrow> uuid option \<Rightarrow> Ticket \<Rightarrow> bool" where
  "tickets_select_policy db uid t =
     (Some (t_customer_id t) = uid \<or> has_role db uid staff_roles)"

text \<open>Policy "Admins and agents can update tickets" (tickets, UPDATE).\<close>

definition tickets_update_policy :: "database \<Rightarrow> uuid option \<Rightarrow> Ticket \<Rightarrow> bool" where
  "tickets_update_policy db uid t = has_role db uid staff_roles"

text \<open>
  The sub-select shared by the two policies of \<^verbatim>\<open>ticket_messages\<close>: the ticket of the
  message exists, the caller has a row in \<^verbatim>\<open>users\<close>, and the caller owns the ticket or has
  a staff role.
\<close>

definition accessible_ticket :: "database \<Rightarrow> uuid option \<Rightarrow> uuid \<Rightarrow> bool" where
  "accessible_ticket db uid tid =
     (case uid of
        None \<Rightarrow> False
      | Some i \<Rightarrow>
          list_ex (\<lambda>t. t_id t = tid \<and>
              list_ex (\<lambda>u. u_id u = i \<and> (t_customer_id t = i \<or> u_role u \<in> set staff_roles))
                (users db))
            (tickets db))"


text \<open>Policy "Users can send messages to accessible tickets" (ticket_messages, INSERT).\<close>

definition ticket_messages_insert_policy ::
    "database \<Rightarrow> uuid option \<Rightarrow> TicketMessage \<Rightarrow> bool" where
  "ticket_messages_insert_policy db uid m =
     (Some (m_user_id m) = uid \<and> accessible_ticket db uid (m_ticket_id m))"

text \<open>Policy "Users can create their own activity logs" (activity_logs, INSERT).\<close>

definition activity_logs_insert_policy ::
    "database \<Rightarrow> uuid option \<Rightarrow> ActivityLog \<Rightarrow> bool" where
  "activity_logs_insert_policy db uid a = (Some (a_user_id a) = uid)"


text \<open>The CHECK constraints on the two status columns.\<close>

definition ticket_status_check :: "string \<Rightarrow> bool" where
  "ticket_status_check s = (s \<in> set [''open'', ''closed'', ''resolved'', ''unresolved''])"


subsection \<open>The statements\<close>

text \<open>
  \<^verbatim>\<open>supabase.from('tickets').update({ status }).eq('id', id)\<close>. Refused with 42P17 when
  the rewriter finds the recursion. Otherwise the statement touches the rows with that id
  which the caller may both read and update; the trigger
  \<^verbatim>\<open>update_tickets_updated_at\<close> stamps each of them with \<^verbatim>\<open>now()\<close>. A new status outside
  the CHECK constraint aborts the statement when a row is touched; when the policies hide
  every row, nothing is updated and no error is raised.
\<close>

definition update_ticket_status ::
    "uuid option \<Rightarrow> uuid \<Rightarrow> string \<Rightarrow> database \<Rightarrow> pg_error option \<times> database" where
  "update_ticket_status uid tid status db =
     (let touched = (\<lambda>t. t_id t = tid \<and> tickets_select_policy db uid t
                             \<and> tickets_update_policy db uid t)
      in if policy_recursion uid UPDATE tbl_tickets then (Some infinite_recursion, db)
         else if list_ex touched (tickets db) \<and> \<not> ticket_status_check status
         then (Some check_violation, db)
         else (None,
               db\<lparr>tickets :=
                    map (\<lambda>t. if touched t
                              then t\<lparr>t_status := status, t_updated_at := clock db\<rparr>
                              else t)
                      (tickets db)\<rparr>))"

text \<open>
  \<^verbatim>\<open>supabase.from('ticket_messages').insert({ ticket_id, user_id, message })\<close>: the id and
  \<^verbatim>\<open>created_at\<close> are the column defaults, assigned by the server. A \<^verbatim>\<open>text\<close> column
  cannot hold the code unit 0.
\<close>

definition insert_ticket_message ::
    "uuid option \<Rightarrow> uuid \<Rightarrow> uuid \<Rightarrow> js_string \<Rightarrow> database
      \<Rightarrow> pg_error option \<times> database" where
  "insert_ticket_message uid ticket_id user_id message db =
     (let row = \<lparr>m_id = next_uuid db, m_ticket_id = ticket_id, m_user_id = user_id,
                 m_message = message, m_created_at = clock db\<rparr>
      in if policy_recursion uid INSERT tbl_ticket_messages then (Some infinite_recursion, db)
         else if 0 \<in> set message then (Some untranslatable_character, db)
         else if \<not> ticket_messages_insert_policy db uid row then (Some rls_violation, db)
         else (None, db\<lparr>ticket_messages := ticket_messages db @ [row],
                         next_uuid := next_uuid db + 1\<rparr>))"

text \<open>
  \<^verbatim>\<open>supabase.from('activity_logs').insert({ user_id, action, details })\<close>. The policy
  reads no table, so the rewriter accepts the statement; the reference to \<^verbatim>\<open>users\<close> is
  checked by the server itself, outside row-level security.
\<close>

definition insert_activity_log ::
    "uuid option \<Rightarrow> uuid \<Rightarrow> string \<Rightarrow> (string \<times> json) list \<Rightarrow> database
      \<Rightarrow> pg_error option \<times> database" where
  "insert_activity_log uid user_id action details db =
     (let row = \<lparr>a_id = next_uuid db, a_user_id = user_id, a_action = action,
                 a_details = details, a_created_at = clock db\<rparr>
      in if policy_recursion uid INSERT tbl_activity_logs then (Some infinite_recursion, db)
         else if \<not> activity_logs_insert_policy db uid row then (Some rls_violation, db)
         else if \<not> list_ex (\<lambda>u. u_id u = user_id) (users db)
         then (Some foreign_key_violation, db)
         else (None, db\<lparr>activity_logs := activity_logs db @ [row],
                         next_uuid := next_uuid db + 1\<rparr>))"



section \<open>The TicketChat component (src/components/tickets/TicketChat.tsx)\<close>

text \<open>
  \<^verbatim>\<open>String.prototype.trim\<close>: strips white space and line terminators from both ends.
  The code units are those of ECMAScript's WhiteSpace and LineTerminator productions.
\<close>

definition js_whitespace :: "nat \<Rightarrow> bool" where
  "js_whitespace c =
     (c \<in> set [0x9, 0xA, 0xB, 0xC, 0xD, 0x20, 0xA0, 0x1680, 0x2000, 0x2001, 0x2002,
                0x2003, 0x2004, 0x2005, 0x2006, 0x2007, 0x2008, 0x2009, 0x200A, 0x2028,
                0x2029, 0x202F, 0x205F, 0x3000, 0xFEFF])"

definition trim :: "js_string \<Rightarrow> js_string" where
  "trim s = rev (dropWhile js_whitespace (rev (dropWhile js_whitespace s)))"

text \<open>
  The state of one mounted component: the profile of the signed-in user from
  \<^verbatim>\<open>useAuth\<close>, the \<^verbatim>\<open>ticket\<close> prop, the \<^verbatim>\<open>useState\<close> cells, the message field of the
  form and the error the form shows under it, the number of calls made to the optional
  \<^verbatim>\<open>onTicketUpdate\<close> prop, and the lines written with \<^verbatim>\<open>console.error\<close>. Requests are sent under the session the profile was
  loaded for, so \<^verbatim>\<open>auth.uid()\<close> is the profile's id.
\<close>

record chat =
  userProfile :: "User option"
  ticket :: Ticket
  ticketData :: Ticket
  messages :: "TicketMessage list"
  loading :: bool
  sending :: bool
  showResolutionOptions :: bool
  form_message :: js_string
  form_error :: "string option"
  onTicketUpdate :: bool
  onTicketUpdate_calls :: nat
  console_error :: "string list"

text \<open>
  How an \<^verbatim>\<open>async\<close> function ends for its caller: its promise is fulfilled (here always
  with \<^verbatim>\<open>undefined\<close>, the functions being \<^verbatim>\<open>Promise<void>\<close>) or rejected with what was
  thrown.
\<close>

datatype settled = fulfilled | rejected string



text \<open>
  \<^verbatim>\<open>sendMessage\<close>. Without a profile or with a body that trims to the empty string it
  returns at once. Otherwise it inserts the trimmed body; only when the store reports no
  error does it reset the form and write the activity log, whose own result is ignored.
  The \<^verbatim>\<open>finally\<close> block clears the \<^verbatim>\<open>sending\<close> flag either way. supabase-js hands
  errors back in its response instead of throwing, so the \<^verbatim>\<open>catch\<close> block is not
  reached.
\<close>

definition sendMessage :: "js_string \<Rightarrow> database \<times> chat \<Rightarrow> settled \<times> database \<times> chat" where
  "sendMessage message w =
     (case w of (db, c) \<Rightarrow>
        (case userProfile c of
           None \<Rightarrow> (fulfilled, db, c)
         | Some up \<Rightarrow>
             if trim message = [] then (fulfilled, db, c)
             else
               (case insert_ticket_message (Some (u_id up)) (t_id (ticket c)) (u_id up)
                       (trim message) db of
                  (None, db1) \<Rightarrow>
                    (case insert_activity_log (Some (u_id up)) (u_id up)
                            ''Sent message in ticket''
                            [(''ticket_id'', json_uuid (t_id (ticket c))),
                             (''ticket_title'', json_string (t_title (ticket c)))] db1 of
                       (_, db2) \<Rightarrow>
                         (fulfilled, db2, c\<lparr>form_message := [], sending := False\<rparr>))
                | (Some error, db1) \<Rightarrow> (fulfilled, db1, c\<lparr>sending := False\<rparr>))))"

text \<open>
  The message form: \<^verbatim>\<open>handleSubmit(sendMessage)\<close> over the field registered with
  \<^verbatim>\<open>required: 'Message is required'\<close>. react-hook-form validates before it calls the
  handler: for the empty field it sets the error, shown under the field, and does not
  call \<^verbatim>\<open>sendMessage\<close>; any other value, white space included, clears the error and is
  passed on. This is the only caller of \<^verbatim>\<open>sendMessage\<close>.
\<close>

definition submitMessageForm ::
    "js_string \<Rightarrow> database \<times> chat \<Rightarrow> settled \<times> database \<times> chat" where
  "submitMessageForm message w =
     (case w of (db, c) \<Rightarrow>
        if message = [] then (fulfilled, db, c\<lparr>form_error := Some ''Message is required''\<rparr>)
        else sendMessage message (db, c\<lparr>form_error := None\<rparr>))"

text \<open>
  \<^verbatim>\<open>updateTicketStatus\<close>. It sends the update whatever the current status and whoever the
  user is. When the store reports no error it copies the status into the local
  \<^verbatim>\<open>ticketData\<close>, writes the activity log, calls \<^verbatim>\<open>onTicketUpdate\<close> when the prop is
  given, and opens the resolution dialog when the new status is \<^verbatim>\<open>closed\<close> and the user
  is a customer. When the store reports an error it does nothing more.
\<close>

definition updateTicketStatus :: "string \<Rightarrow> database \<times> chat \<Rightarrow> settled \<times> database \<times> chat" where
  "updateTicketStatus status w =
     (case w of (db, c) \<Rightarrow>
        (case userProfile c of
           None \<Rightarrow> (fulfilled, db, c)
         | Some up \<Rightarrow>
             (case update_ticket_status (Some (u_id up)) (t_id (ticket c)) status db of
                (None, db1) \<Rightarrow>
                  (case insert_activity_log (Some (u_id up)) (u_id up)
                          (''Ticket status changed to '' @ status)
                          [(''ticket_id'', json_uuid (t_id (ticket c))),
                           (''ticket_title'', json_string (t_title (ticket c))),
                           (''new_status'', json_string status)] db1 of
                     (_, db2) \<Rightarrow>
                       (fulfilled, db2,
                        c\<lparr>ticketData := (ticketData c)\<lparr>t_status := status\<rparr>,
                          onTicketUpdate_calls :=
                            (if onTicketUpdate c then onTicketUpdate_calls c + 1
                             else onTicketUpdate_calls c),
                          showResolutionOptions :=
                            (if status = ''closed'' \<and> u_role up = customer then True
                             else showResolutionOptions c)\<rparr>))
              | (Some error, db1) \<Rightarrow> (fulfilled, db1, c))))"





text \<open>
  What the component renders from its local state: the Close and Reopen buttons and the
  message form.
\<close>

definition isAdmin :: "chat \<Rightarrow> bool" where
  "isAdmin c =
     (case userProfile c of
        None \<Rightarrow> False
      | Some up \<Rightarrow> u_role up \<in> set [super_admin, supervisory_admin, agent])"


definition canReopenTicket :: "chat \<Rightarrow> bool" where
  "canReopenTicket c =
     (isAdmin c \<and> t_status (ticketData c) \<in> set [''closed'', ''resolved'', ''unresolved''])"

definition message_form_shown :: "chat \<Rightarrow> bool" where
  "message_form_shown c = (t_status (ticketData c) = ''open'')"

section \<open>A small installation used for the concrete runs\<close>

text \<open>
  One customer who owns the ticket, a second customer, two agents of different teams, a
  supervisory admin and a super admin; one ticket tagged for the support team.
\<close>

definition mk_user :: "uuid \<Rightarrow> string \<Rightarrow> role \<Rightarrow> uuid option \<Rightarrow> User" where
  "mk_user i n r tm =
     \<lparr>u_id = i, u_email = n @ ''@example.com'', u_name = n, u_role = r,
      u_organisation_id = None, u_team_id = tm, u_key = None, u_is_verified = True,
      u_created_at = 1, u_updated_at = 1\<rparr>"

definition owner_c :: User where "owner_c = mk_user 1 ''owner'' customer None"
definition agent_a :: User where "agent_a = mk_user 2 ''agent_a'' agent (Some 10)"
definition agent_b :: User where "agent_b = mk_user 3 ''agent_b'' agent (Some 11)"
definition admin_s :: User where "admin_s = mk_user 4 ''admin'' super_admin None"
definition other_d :: User where "other_d = mk_user 5 ''other'' customer None"
definition supervisor_v :: User where
  "supervisor_v = mk_user 6 ''supervisor'' supervisory_admin (Some 10)"

definition demo_teams :: "Team list" where
  "demo_teams =
     [\<lparr>tm_id = 10, tm_name = ''Support'', tm_tag = ''support'', tm_created_at = 1,
       tm_updated_at = 1\<rparr>,
      \<lparr>tm_id = 11, tm_name = ''Billing'', tm_tag = ''billing'', tm_created_at = 1,
       tm_updated_at = 1\<rparr>]"

definition demo_ticket :: "string \<Rightarrow> Ticket" where
  "demo_ticket s =
     \<lparr>t_id = 100, t_title = ''Cannot log in'', t_description = ''Password rejected'',
      t_customer_id = 1, t_team_tag = Some ''support'', t_assigned_agent_id = None,
      t_status = s, t_created_at = 5, t_updated_at = 5\<rparr>"

definition demo_db :: "string \<Rightarrow> database" where
  "demo_db s =
     \<lparr>users = [owner_c, agent_a, agent_b, admin_s, other_d, supervisor_v],
      teams = demo_teams, tickets = [demo_ticket s], ticket_messages = [],
      activity_logs = [], ticket_escalations = [], clock = 20, next_uuid = 1000\<rparr>"

text \<open>
  A component mounted by the given user on the ticket, whose local copy of the ticket has
  the given status.
\<close>

definition demo_chat :: "User \<Rightarrow> string \<Rightarrow> chat" where
  "demo_chat up s =
     \<lparr>userProfile = Some up, ticket = demo_ticket s, ticketData = demo_ticket s,
      messages = [], loading = False, sending = False, showResolutionOptions = False,
      form_message = [], form_error = None, onTicketUpdate = True,
      onTicketUpdate_calls = 0, console_error = []\<rparr>"



section \<open>Notions used to state the properties\<close>

text \<open>
  The columns of a ticket other than \<^verbatim>\<open>status\<close> and \<^verbatim>\<open>updated_at\<close>.
\<close>

definition ticket_frame ::
    "Ticket \<Rightarrow> uuid \<times> string \<times> string \<times> uuid \<times> string option \<times> uuid option \<times> timestamptz" where
  "ticket_frame t =
     (t_id t, t_title t, t_description t, t_customer_id t, t_team_tag t,
      t_assigned_agent_id t, t_created_at t)"




section \<open>Facts about the store and the component\<close>

subsection \<open>Trimming\<close>

lemma trim_blank_iff: "trim s = [] \<longleftrightarrow> list_all js_whitespace s"
proof
  assume "list_all js_whitespace s"
  then have "\<forall>x\<in>set s. js_whitespace x"
    by (simp add: list_all_iff)
  then have "dropWhile js_whitespace s = []"
    by (simp only: dropWhile_eq_Nil_conv)
  then show "trim s = []"
    by (simp add: trim_def del: dropWhile_eq_Nil_conv)
next
  assume "trim s = []"
  then have a: "dropWhile js_whitespace (rev (dropWhile js_whitespace s)) = []"
    by (simp add: trim_def)
  have "dropWhile js_whitespace s = []"
  proof (rule ccontr)
    assume ne: "dropWhile js_whitespace s \<noteq> []"
    then have "\<not> js_whitespace (hd (dropWhile js_whitespace s))"
      by (rule hd_dropWhile)
    moreover have "hd (dropWhile js_whitespace s) \<in> set (rev (dropWhile js_whitespace s))"
      using ne by simp
    ultimately show False
      using a by (auto simp: dropWhile_eq_Nil_conv)
  qed
  then show "list_all js_whitespace s"
    by (simp add: list_all_iff dropWhile_eq_Nil_conv)
qed

subsection \<open>The statements, whatever the rewriter decides\<close>

lemma update_ticket_status_frame:
  "map ticket_frame (tickets (snd (update_ticket_status uid tid status db)))
     = map ticket_frame (tickets db)"
  by (simp add: update_ticket_status_def Let_def ticket_frame_def comp_def)

lemma update_ticket_status_others:
  "users (snd (update_ticket_status uid tid status db)) = users db"
  "ticket_messages (snd (update_ticket_status uid tid status db)) = ticket_messages db"
  "ticket_escalations (snd (update_ticket_status uid tid status db)) = ticket_escalations db"
  "activity_logs (snd (update_ticket_status uid tid status db)) = activity_logs db"
  "clock (snd (update_ticket_status uid tid status db)) = clock db"
  "next_uuid (snd (update_ticket_status uid tid status db)) = next_uuid db"
  by (simp_all add: update_ticket_status_def Let_def)

lemma insert_activity_log_others:
  "users (snd (insert_activity_log uid i a d db)) = users db"
  "tickets (snd (insert_activity_log uid i a d db)) = tickets db"
  "ticket_messages (snd (insert_activity_log uid i a d db)) = ticket_messages db"
  "ticket_escalations (snd (insert_activity_log uid i a d db)) = ticket_escalations db"
  "clock (snd (insert_activity_log uid i a d db)) = clock db"
  by (simp_all add: insert_activity_log_def Let_def)




subsection \<open>The operations, whatever the store answers\<close>




lemma updateTicketStatus_db:
  "fst (snd (updateTicketStatus status (db, c))) =
     (case userProfile c of
        None \<Rightarrow> db
      | Some up \<Rightarrow>
          if fst (update_ticket_status (Some (u_id up)) (t_id (ticket c)) status db) = None
          then snd (insert_activity_log (Some (u_id up)) (u_id up)
                      (''Ticket status changed to '' @ status)
                      [(''ticket_id'', json_uuid (t_id (ticket c))),
                       (''ticket_title'', json_string (t_title (ticket c))),
                       (''new_status'', json_string status)]
                      (snd (update_ticket_status (Some (u_id up)) (t_id (ticket c)) status db)))
          else snd (update_ticket_status (Some (u_id up)) (t_id (ticket c)) status db))"
  by (simp add: updateTicketStatus_def split: option.splits prod.splits split del: if_split)

lemma updateTicketStatus_tickets:
  "tickets (fst (snd (updateTicketStatus status (db, c)))) =
     (case userProfile c of
        None \<Rightarrow> tickets db
      | Some up \<Rightarrow> tickets (snd (update_ticket_status (Some (u_id up)) (t_id (ticket c)) status db)))"
  by (simp add: updateTicketStatus_db insert_activity_log_others split: option.splits)




subsection \<open>What the rewriter decides for the policies as they are\<close>










section \<open>Frame of a status change\<close>

text \<open>
  Claim C10. A call of \<^verbatim>\<open>updateTicketStatus\<close>, successful or not, leaves the title,
  description, customer id, team tag and assigned agent of every stored ticket as they
  were (and its id and creation time); only \<^verbatim>\<open>status\<close> and \<^verbatim>\<open>updated_at\<close> can differ.
  The same holds for the component's local copy of the ticket.
\<close>

theorem updateTicketStatus_frame:
  "map ticket_frame (tickets (fst (snd (updateTicketStatus status (db, c)))))
     = map ticket_frame (tickets db)
   \<and> ticket_frame (ticketData (snd (snd (updateTicketStatus status (db, c)))))
     = ticket_frame (ticketData c)"
proof
  show "map ticket_frame (tickets (fst (snd (updateTicketStatus status (db, c)))))
     = map ticket_frame (tickets db)"
    by (simp add: updateTicketStatus_tickets update_ticket_status_frame split: option.splits)
  show "ticket_frame (ticketData (snd (snd (updateTicketStatus status (db, c)))))
     = ticket_frame (ticketData c)"
    by (simp add: updateTicketStatus_def ticket_frame_def split: option.splits prod.splits)
qed

text \<open>Agent A presses Close on the open ticket.\<close>

theorem updateTicketStatus_frame_witness:
  "map ticket_frame (tickets (fst (snd (updateTicketStatus ''closed''
         (demo_db ''open'', demo_chat agent_a ''open'')))))
     = [ticket_frame (demo_ticket ''open'')]
   \<and> ticket_frame (ticketData (snd (snd (updateTicketStatus ''closed''
         (demo_db ''open'', demo_chat agent_a ''open'')))))
     = ticket_frame (demo_ticket ''open'')"
  using updateTicketStatus_frame[of "''closed''" "demo_db ''open''" "demo_chat agent_a ''open''"]
  by (simp add: demo_db_def demo_chat_def)

section \<open>The resolution choice\<close>




section \<open>Who can change the status, and to what\<close>








section \<open>Sending a message\<close>

text \<open>
  Claim C4, as amended. A submitted body that is empty or consists of white space only
  appends no message: the store is unchanged. For the empty body the form reports the
  validation error \<^verbatim>\<open>Message is required\<close>. For a body of white space the form passes it
  on, \<^verbatim>\<open>sendMessage\<close> returns at once, and no error is reported: the promise is fulfilled
  and the component shows no error.
\<close>

theorem blank_message_not_sent:
  assumes "list_all js_whitespace body"
  shows "fst (submitMessageForm body (db, c)) = fulfilled
       \<and> fst (snd (submitMessageForm body (db, c))) = db
       \<and> (body = [] \<longrightarrow>
            snd (snd (submitMessageForm body (db, c)))
              = c\<lparr>form_error := Some ''Message is required''\<rparr>)
       \<and> (body \<noteq> [] \<longrightarrow>
            snd (snd (submitMessageForm body (db, c))) = c\<lparr>form_error := None\<rparr>)"
  using assms
  by (simp add: submitMessageForm_def sendMessage_def trim_blank_iff split: option.splits)

text \<open>Agent A submits a space, a tab and a no-break space on the open ticket.\<close>

theorem blank_message_not_sent_witness:
  "list_all js_whitespace [0x20, 0x9, 0xA0]
   \<and> submitMessageForm [0x20, 0x9, 0xA0] (demo_db ''open'', demo_chat agent_a ''open'')
       = (fulfilled, demo_db ''open'', demo_chat agent_a ''open'')"
proof -
  have b: "list_all js_whitespace [0x20, 0x9, 0xA0]"
    by (simp add: js_whitespace_def)
  have e: "(demo_chat agent_a ''open'')\<lparr>form_error := None\<rparr> = demo_chat agent_a ''open''"
    by (simp add: demo_chat_def)
  show ?thesis
    using b blank_message_not_sent[OF b, of "demo_db ''open''" "demo_chat agent_a ''open''"]
    by (simp add: e prod_eq_iff)
qed

text \<open>
  Agent A submits two spaces on the open ticket: the call is fulfilled, the form shows no
  error, and the store and the component are exactly as before.
\<close>

theorem blank_message_counterexample:
  "message_form_shown (demo_chat agent_a ''open'')
   \<and> fst (submitMessageForm [0x20, 0x20] (demo_db ''open'', demo_chat agent_a ''open''))
       = fulfilled
   \<and> form_error (snd (snd (submitMessageForm [0x20, 0x20]
        (demo_db ''open'', demo_chat agent_a ''open'')))) = None
   \<and> snd (submitMessageForm [0x20, 0x20] (demo_db ''open'', demo_chat agent_a ''open''))
       = (demo_db ''open'', demo_chat agent_a ''open'')"
  by (simp add: submitMessageForm_def sendMessage_def trim_def js_whitespace_def demo_chat_def
      message_form_shown_def demo_ticket_def)






section \<open>Listing the messages\<close>


section \<open>What the operations report\<close>




end
